theory Spec2Isabelle
  imports Complex_Main "HOL-Library.Char_ord" "HOL-Library.List_Lexorder"
begin

section \<open>Traceroute to BGP translation: data model\<close>

text \<open>
  The development embeds \<^verbatim>\<open>src/traceroute_dependency/traceroute_to_bgp.py\<close>:
  \<^verbatim>\<open>process_hop\<close>, \<^verbatim>\<open>process_message\<close> and \<^verbatim>\<open>print_stats\<close>.
  Python dictionaries with a fixed set of possible keys are records of optional fields
  (\<open>None\<close>: the key is absent), a subscript on an absent key is the exception
  \<open>KeyError\<close>, and a function that can raise returns a sum whose left summand is the exception.
  Python sets are duplicate-free lists: the code only adds to them, discards from them, takes their
  length, sorts them, and pops from a set of one element, so their iteration order is never
  observed. Debug logging has no effect on results and is left out, and with it the parameter
  \<^verbatim>\<open>msg\<close> of \<^verbatim>\<open>process_hop\<close>, which is only logged.
\<close>

datatype exn = KeyError string | ZeroDivisionError

subsection \<open>Strings\<close>

definition digit_char :: "nat \<Rightarrow> char" where
  "digit_char d = ''0123456789'' ! d"

fun str_nat :: "nat \<Rightarrow> string" where
  "str_nat n = (if n < 10 then [digit_char n] else str_nat (n div 10) @ [digit_char (n mod 10)])"

declare str_nat.simps [simp del]

text \<open>Python's \<^verbatim>\<open>str\<close> on an integer, as the f-strings and \<^verbatim>\<open>str(reply['err'])\<close> use it.\<close>

definition str_int :: "int \<Rightarrow> string" where
  "str_int i = (if i < 0 then CHR ''-'' # str_nat (nat (- i)) else str_nat (nat i))"

text \<open>\<^verbatim>\<open>sep.join(xs)\<close>.\<close>

fun join :: "string \<Rightarrow> string list \<Rightarrow> string" where
  "join sep [] = []"
| "join sep [x] = x"
| "join sep (x # y # ys) = x @ sep @ join sep (y # ys)"

subsection \<open>Input records\<close>

text \<open>An inline error code is a string (\<^verbatim>\<open>'N'\<close>, \<^verbatim>\<open>'H'\<close>, ...) or, when unrecognised, an integer.\<close>

datatype errval = ErrStr string | ErrInt int

fun str_errval :: "errval \<Rightarrow> string" where
  "str_errval (ErrStr s) = s"
| "str_errval (ErrInt i) = str_int i"

record reply =
  reply_error :: "string option"
  reply_err :: "errval option"
  reply_from :: "string option"
  reply_x :: "string option"

record hop =
  hop_error :: "string option"
  hop_result :: "reply list option"
  hop_hop :: "int option"

record msg =
  msg_msm_id :: "int option"
  msg_prb_id :: "int option"
  msg_from :: "string option"
  msg_result :: "hop list option"

text \<open>
  The lookup capability \<^verbatim>\<open>IPLookup\<close> is an external library: its three functions are
  parameters. \<^verbatim>\<open>ip2asn\<close> returns the string \<^verbatim>\<open>'0'\<close> when the lookup fails,
  \<^verbatim>\<open>ip2prefix\<close> a false value, here the empty string, and \<^verbatim>\<open>ip2ixpid\<close> the integer 0.
\<close>

record lookup =
  ip2asn :: "string \<Rightarrow> string"
  ip2prefix :: "string \<Rightarrow> string"
  ip2ixpid :: "string \<Rightarrow> int"

subsection \<open>Run statistics\<close>

record stats =
  total :: int
  no_dst_addr :: int
  no_dst_asn :: int
  no_prefix :: int
  no_from :: int
  no_peer_asn :: int
  duplicate :: int
  changed_ip :: int
  accepted :: int
  dnf :: int
  empty_path :: int
  end_as_in_path :: int
  start_as_in_path :: int
  single_as :: int
  used :: int
  too_many_hops :: int
  errors :: int
  start_as_missing :: int
  end_as_missing :: int
  ixp_in_path :: int
  as_set :: int
  scopes :: "string set"

definition stats_init :: stats where
  "stats_init = \<lparr>total = 0, no_dst_addr = 0, no_dst_asn = 0, no_prefix = 0, no_from = 0,
     no_peer_asn = 0, duplicate = 0, changed_ip = 0, accepted = 0, dnf = 0, empty_path = 0,
     end_as_in_path = 0, start_as_in_path = 0, single_as = 0, used = 0, too_many_hops = 0,
     errors = 0, start_as_missing = 0, end_as_missing = 0, ixp_in_path = 0, as_set = 0,
     scopes = {}\<rparr>"

section \<open>The path accumulator\<close>

text \<open>
  Modelled from the spec: the class \<^verbatim>\<open>ASPath\<close> (module
  \<^verbatim>\<open>traceroute_dependency.utils.as_path\<close>) is not among the sources. An \<^verbatim>\<open>ASPath\<close>
  object is represented by the sequence of mutating method calls it has received, oldest first;
  each mutator of the source appends its call.
\<close>

datatype path_call =
    SetStartEndAsn string string
  | Append string string bool
  | AppendSet "string list" "string list" bool
  | MarkHopError string
  | FlagTooManyHops

type_synonym ASPath = "path_call list"

definition ASPath_new :: ASPath where
  "ASPath_new = []"

definition set_start_end_asn :: "string \<Rightarrow> string \<Rightarrow> ASPath \<Rightarrow> ASPath" where
  "set_start_end_asn start_asn end_asn path = path @ [SetStartEndAsn start_asn end_asn]"

text \<open>\<^verbatim>\<open>path.append(as_str, ip, ixp=False)\<close>.\<close>

definition append_path :: "string \<Rightarrow> string \<Rightarrow> bool \<Rightarrow> ASPath \<Rightarrow> ASPath" where
  "append_path as_str ip ixp path = path @ [Append as_str ip ixp]"

definition append_set :: "string list \<Rightarrow> string list \<Rightarrow> bool \<Rightarrow> ASPath \<Rightarrow> ASPath" where
  "append_set as_tuple ip_tuple contains_ixp path = path @ [AppendSet as_tuple ip_tuple contains_ixp]"

definition mark_hop_error :: "string \<Rightarrow> ASPath \<Rightarrow> ASPath" where
  "mark_hop_error error_str path = path @ [MarkHopError error_str]"

definition flag_too_many_hops :: "ASPath \<Rightarrow> ASPath" where
  "flag_too_many_hops path = path @ [FlagTooManyHops]"

text \<open>
  Modelled from the spec: \<^verbatim>\<open>contains_ip\<close> queries the set of addresses already observed in
  this path, to which the real addresses (not the placeholder \<^verbatim>\<open>'*'\<close>) of every appended
  entry and of every appended set are added.
\<close>

fun call_ips :: "path_call \<Rightarrow> string list" where
  "call_ips (Append as_str ip ixp) = [ip]"
| "call_ips (AppendSet as_tuple ip_tuple contains_ixp) = ip_tuple"
| "call_ips (SetStartEndAsn start_asn end_asn) = []"
| "call_ips (MarkHopError error_str) = []"
| "call_ips FlagTooManyHops = []"

definition seen_addresses :: "ASPath \<Rightarrow> string list" where
  "seen_addresses path = removeAll ''*'' (concat (map call_ips path))"

definition contains_ip :: "ASPath \<Rightarrow> string \<Rightarrow> bool" where
  "contains_ip path ip = (ip \<in> set (seen_addresses path))"

text \<open>
  Modelled from the spec: the accessors. A raw path position is a single token or, for an
  ambiguous hop, a tuple of tokens; the parallel IP sequence has the same shape; the IXP indexes
  are the positions appended with the IXP mark; an error annotation is recorded against the
  position about to be appended; the flags record that the corresponding mutator was called.
\<close>

datatype path_token = Simple string | SetOf "string list"

fun call_entries :: "path_call \<Rightarrow> (path_token \<times> path_token \<times> bool) list" where
  "call_entries (Append as_str ip ixp) = [(Simple as_str, Simple ip, ixp)]"
| "call_entries (AppendSet as_tuple ip_tuple contains_ixp) = [(SetOf as_tuple, SetOf ip_tuple, contains_ixp)]"
| "call_entries (SetStartEndAsn start_asn end_asn) = []"
| "call_entries (MarkHopError error_str) = []"
| "call_entries FlagTooManyHops = []"

definition raw_positions :: "ASPath \<Rightarrow> (path_token \<times> path_token \<times> bool) list" where
  "raw_positions path = concat (map call_entries path)"

definition get_raw_path :: "ASPath \<Rightarrow> path_token list \<times> path_token list" where
  "get_raw_path path = (map fst (raw_positions path), map (\<lambda>e. fst (snd e)) (raw_positions path))"

definition get_raw_ixp_indexes :: "ASPath \<Rightarrow> nat list" where
  "get_raw_ixp_indexes path =
     filter (\<lambda>i. snd (snd (raw_positions path ! i))) [0 ..< length (raw_positions path)]"

fun attributes_from :: "nat \<Rightarrow> ASPath \<Rightarrow> (nat \<times> string) list" where
  "attributes_from n [] = []"
| "attributes_from n (MarkHopError error_str # cs) = (n, error_str) # attributes_from n cs"
| "attributes_from n (Append as_str ip ixp # cs) = attributes_from (Suc n) cs"
| "attributes_from n (AppendSet as_tuple ip_tuple contains_ixp # cs) = attributes_from (Suc n) cs"
| "attributes_from n (SetStartEndAsn start_asn end_asn # cs) = attributes_from n cs"
| "attributes_from n (FlagTooManyHops # cs) = attributes_from n cs"

definition attributes :: "ASPath \<Rightarrow> (nat \<times> string) list" where
  "attributes path = attributes_from 0 path"

definition has_too_many_hops :: "ASPath \<Rightarrow> bool" where
  "has_too_many_hops path = (FlagTooManyHops \<in> set path)"

fun is_mark_hop_error :: "path_call \<Rightarrow> bool" where
  "is_mark_hop_error (MarkHopError error_str) = True"
| "is_mark_hop_error (Append as_str ip ixp) = False"
| "is_mark_hop_error (AppendSet as_tuple ip_tuple contains_ixp) = False"
| "is_mark_hop_error (SetStartEndAsn start_asn end_asn) = False"
| "is_mark_hop_error FlagTooManyHops = False"

definition has_errors :: "ASPath \<Rightarrow> bool" where
  "has_errors path = list_ex is_mark_hop_error path"

section \<open>process\_hop\<close>

text \<open>
  The loop over the replies of one hop (lines 75 to 101). Its state is the pair
  \<^verbatim>\<open>(reply_addresses, errors_in_hop)\<close>; the result \<open>None\<close> is the early
  \<^verbatim>\<open>return True\<close> taken at a reply that has the key \<^verbatim>\<open>'error'\<close>. The path is only
  queried in the loop, never changed.
\<close>

definition skip_reply :: "ASPath \<Rightarrow> reply \<Rightarrow> bool" where
  "skip_reply path r =
     (case reply_err r of
        None \<Rightarrow> False
      | Some e \<Rightarrow> (case reply_from r of None \<Rightarrow> False | Some a \<Rightarrow> contains_ip path a))"

fun process_replies ::
  "ASPath \<Rightarrow> reply list \<Rightarrow> string list \<times> string list \<Rightarrow> (string list \<times> string list) option" where
  "process_replies path [] acc = Some acc"
| "process_replies path (r # rs) (reply_addresses, errors_in_hop) =
     (if reply_error r \<noteq> None then None
      else if skip_reply path r then process_replies path rs (reply_addresses, errors_in_hop)
      else if reply_x r \<noteq> None
        then process_replies path rs (List.insert ''*'' reply_addresses, errors_in_hop)
      else (case reply_from r of
              None \<Rightarrow> process_replies path rs (List.insert ''*'' reply_addresses, errors_in_hop)
            | Some a \<Rightarrow>
                process_replies path rs
                  (List.insert a reply_addresses,
                   (case reply_err r of
                      None \<Rightarrow> errors_in_hop
                    | Some e \<Rightarrow> List.insert (str_errval e) errors_in_hop))))"

text \<open>
  The loop over the sorted addresses of an ambiguous hop (lines 136 to 146), with state
  \<^verbatim>\<open>(as_set, ip_set, contains_ixp)\<close>, here \<open>(as_tuple, ip_tuple, contains_ixp)\<close>.
\<close>

fun hop_set_loop ::
  "lookup \<Rightarrow> string list \<Rightarrow> string list \<times> string list \<times> bool \<Rightarrow> string list \<times> string list \<times> bool" where
  "hop_set_loop lk [] acc = acc"
| "hop_set_loop lk (address # rest) (as_tuple, ip_tuple, contains_ixp) =
     (let ixp = ip2ixpid lk address in
      if ixp \<noteq> 0
      then hop_set_loop lk rest
             (as_tuple @ [''ix|'' @ str_int ixp,
                        ''ix|'' @ str_int ixp @ '';as|'' @ ip2asn lk address,
                        ''ip|'' @ address] @ [''as|'' @ ip2asn lk address],
              ip_tuple @ replicate 3 address @ [address],
              True)
      else hop_set_loop lk rest
             (as_tuple @ [''as|'' @ ip2asn lk address], ip_tuple @ [address], contains_ixp))"

text \<open>\<^verbatim>\<open>set.pop()\<close>: raises on the empty set; the code only reaches it with one element.\<close>

definition set_pop :: "string list \<Rightarrow> exn + string" where
  "set_pop s = (case s of [] \<Rightarrow> Inl (KeyError ''pop from an empty set'') | a # rest \<Rightarrow> Inr a)"

definition error_str_of :: "string list \<Rightarrow> string" where
  "error_str_of errors_in_hop = join '' '' (sort errors_in_hop)"

definition mark_errors :: "string list \<Rightarrow> ASPath \<Rightarrow> ASPath" where
  "mark_errors errors_in_hop path =
     (if errors_in_hop \<noteq> [] then mark_hop_error (error_str_of errors_in_hop) path else path)"

definition incr_dnf :: "stats \<Rightarrow> stats" where
  "incr_dnf st = st\<lparr>dnf := dnf st + 1\<rparr>"

text \<open>
  \<^verbatim>\<open>process_hop\<close> returns \<open>True\<close> when the traceroute is to be abandoned. The global
  \<^verbatim>\<open>stats\<close> and the path object are passed in and returned.
\<close>

definition process_hop :: "lookup \<Rightarrow> hop \<Rightarrow> stats \<times> ASPath \<Rightarrow> exn + (bool \<times> stats \<times> ASPath)" where
  "process_hop lk h sp =
    (case sp of (st, path) \<Rightarrow>
     if hop_error h \<noteq> None then Inr (True, incr_dnf st, path)
     else (case hop_result h of
       None \<Rightarrow> Inl (KeyError ''result'')
     | Some replies \<Rightarrow>
        (case process_replies path replies ([], []) of
           None \<Rightarrow> Inr (True, incr_dnf st, path)
         | Some (reply_addresses, errors_in_hop) \<Rightarrow>
            if length reply_addresses = 0 then Inr (True, incr_dnf st, path)
            else (case hop_hop h of
              None \<Rightarrow> Inr (True, incr_dnf st, path)
            | Some ttl \<Rightarrow>
               if ttl = 255
               then Inr (False, st, flag_too_many_hops (append_path ''as|0'' ''*'' False path))
               else
                 let reply_addresses =
                       (if length reply_addresses > 1 then removeAll ''*'' reply_addresses
                        else reply_addresses)
                 in
                 if length reply_addresses > 1 then
                   (case hop_set_loop lk (sort reply_addresses) ([], [], False) of
                      (as_tuple, ip_tuple, contains_ixp) \<Rightarrow>
                        Inr (False, st,
                             append_set as_tuple ip_tuple contains_ixp (mark_errors errors_in_hop path)))
                 else
                   (case set_pop reply_addresses of
                      Inl e \<Rightarrow> Inl e
                    | Inr address \<Rightarrow>
                       if address = ''*'' then Inr (False, st, append_path ''as|0'' ''*'' False path)
                       else
                         let path = mark_errors errors_in_hop path;
                             ixp = ip2ixpid lk address;
                             path =
                               (if ixp \<noteq> 0
                                then append_path (''ip|'' @ address) address True
                                      (append_path
                                        (''ix|'' @ str_int ixp @ '';as|'' @ ip2asn lk address)
                                        address True
                                        (append_path (''ix|'' @ str_int ixp) address True path))
                                else path)
                         in Inr (False, st,
                                 append_path (''as|'' @ ip2asn lk address) address False path))))))"

section \<open>process\_message\<close>

text \<open>
  The parameters of \<^verbatim>\<open>process_message\<close> other than the message, the lookup and the set of
  seen keys. An optional argument that is \<^verbatim>\<open>None\<close> is \<open>None\<close>.
\<close>

record args =
  unified_timestamp :: int
  msm_ids :: "int set option"
  probe_ids :: "int set option"
  target_asn :: "string option"
  include_duplicates :: bool

text \<open>
  What \<^verbatim>\<open>process_message\<close> calls and the sources do not hold is a parameter: the lookup,
  the helper \<^verbatim>\<open>atlas_api_helper.get_dst_addr\<close> (its result is false when it is \<open>None\<close> or
  the empty string), and the path reduction of \<^verbatim>\<open>ASPath\<close>, which receives the statistics
  and returns them updated together with the reduced path, the reduced IP path and the reduced
  path length.
\<close>

record env =
  env_lookup :: lookup
  get_dst_addr :: "msg \<Rightarrow> string option"
  get_reduced_path :: "ASPath \<Rightarrow> stats \<Rightarrow> (path_token list \<times> path_token list \<times> int) \<times> stats"
  get_reduced_ixp_indexes :: "ASPath \<Rightarrow> nat list"

text \<open>
  The mutable state of a run: the global \<^verbatim>\<open>stats\<close>, the global \<^verbatim>\<open>probe_ip_map\<close> and the
  set \<^verbatim>\<open>seen_peer_prefixes\<close> that \<^verbatim>\<open>main\<close> creates and passes to every call.
\<close>

record run_state =
  run_stats :: stats
  probe_ip_map :: "int \<rightharpoonup> string"
  seen_peer_prefixes :: "(string \<times> string) set"

definition run_state_init :: run_state where
  "run_state_init = \<lparr>run_stats = stats_init, probe_ip_map = Map.empty, seen_peer_prefixes = {}\<rparr>"

text \<open>The returned dictionary; the empty dictionary is \<open>None\<close>.\<close>

record out_fields =
  f_as_path :: "path_token list"
  f_ip_path :: "path_token list"
  f_ixp_path_indexes :: "nat list"
  f_full_as_path :: "path_token list"
  f_full_ip_path :: "path_token list"
  f_full_ixp_path_indexes :: "nat list"
  f_prefix :: string
  f_path_attributes :: "(nat \<times> string) list"

record output_record =
  rec_status :: string
  rec_time :: int
  elem_type :: string
  elem_peer_address :: string
  elem_peer_asn :: string
  elem_prb_id :: int
  elem_fields :: out_fields

text \<open>
  The condition of line 175: \<^verbatim>\<open>A and B or C and D\<close>, evaluated from the left, a subscript
  being evaluated only when the test before it holds.
\<close>

definition filtered_out :: "args \<Rightarrow> msg \<Rightarrow> exn + bool" where
  "filtered_out a m =
     (case (case msm_ids a of
              None \<Rightarrow> Inr False
            | Some ids \<Rightarrow>
               (case msg_msm_id m of
                  None \<Rightarrow> Inl (KeyError ''msm_id'')
                | Some i \<Rightarrow> Inr (i \<notin> ids))) of
        Inl e \<Rightarrow> Inl e
      | Inr excluded \<Rightarrow>
         if excluded then Inr True
         else (case probe_ids a of
                 None \<Rightarrow> Inr False
               | Some ids \<Rightarrow>
                  (case msg_prb_id m of
                     None \<Rightarrow> Inl (KeyError ''prb_id'')
                   | Some p \<Rightarrow> Inr (p \<notin> ids))))"

text \<open>The loop over the hops (lines 219 to 221); \<open>True\<close>: a hop asked to abandon the path.\<close>

fun process_hops :: "lookup \<Rightarrow> hop list \<Rightarrow> stats \<times> ASPath \<Rightarrow> exn + (bool \<times> stats \<times> ASPath)" where
  "process_hops lk [] sp = Inr (False, fst sp, snd sp)"
| "process_hops lk (h # hs) sp =
     (case process_hop lk h sp of
        Inl e \<Rightarrow> Inl e
      | Inr (stop, st, path) \<Rightarrow>
         if stop then Inr (True, st, path) else process_hops lk hs (st, path))"

text \<open>
  Lines 209 to 259 of \<^verbatim>\<open>process_message\<close>: what happens to a message that has passed the
  duplicate check, with its source address, its prefix and the two AS numbers.
\<close>

definition process_message_path ::
  "env \<Rightarrow> args \<Rightarrow> msg \<Rightarrow> string \<Rightarrow> string \<Rightarrow> string \<Rightarrow> string \<Rightarrow> run_state \<Rightarrow>
     exn + (output_record option \<times> run_state)" where
  "process_message_path ev a m from' prefix peer_asn dst_asn rs =
    (case msg_prb_id m of
       None \<Rightarrow> Inl (KeyError ''prb_id'')
     | Some prb \<Rightarrow>
        let st = run_stats rs;
            st = (case probe_ip_map rs prb of
                    None \<Rightarrow> st
                  | Some ip \<Rightarrow> if from' \<noteq> ip then st\<lparr>changed_ip := changed_ip st + 1\<rparr> else st);
            pim = (probe_ip_map rs)(prb \<mapsto> from');
            st = st\<lparr>accepted := accepted st + 1\<rparr>;
            path = set_start_end_asn peer_asn dst_asn ASPath_new
        in
        (case msg_result m of
           None \<Rightarrow> Inl (KeyError ''result'')
         | Some traceroute \<Rightarrow>
            (case process_hops (env_lookup ev) traceroute (st, path) of
               Inl e \<Rightarrow> Inl e
             | Inr (stop, st, path) \<Rightarrow>
                if stop then Inr (None, rs\<lparr>run_stats := st, probe_ip_map := pim\<rparr>)
                else
                  (case get_reduced_path ev path st of
                     ((reduced_path, reduced_ip_path, reduced_path_len), st) \<Rightarrow>
                       if reduced_path_len = 0
                       then Inr (None, rs\<lparr>run_stats := st, probe_ip_map := pim\<rparr>)
                       else if reduced_path_len = 1
                       then Inr (None, rs\<lparr>run_stats := st\<lparr>single_as := single_as st + 1\<rparr>,
                                           probe_ip_map := pim\<rparr>)
                       else
                         let st = st\<lparr>used := used st + 1\<rparr>;
                             st = (if has_too_many_hops path
                                   then st\<lparr>too_many_hops := too_many_hops st + 1\<rparr> else st);
                             st = (if has_errors path then st\<lparr>errors := errors st + 1\<rparr> else st);
                             ret = \<lparr>rec_status = ''valid'',
                                    rec_time = unified_timestamp a,
                                    elem_type = ''R'',
                                    elem_peer_address = from',
                                    elem_peer_asn = peer_asn,
                                    elem_prb_id = prb,
                                    elem_fields =
                                      \<lparr>f_as_path = reduced_path,
                                       f_ip_path = reduced_ip_path,
                                       f_ixp_path_indexes = get_reduced_ixp_indexes ev path,
                                       f_full_as_path = fst (get_raw_path path),
                                       f_full_ip_path = snd (get_raw_path path),
                                       f_full_ixp_path_indexes = get_raw_ixp_indexes path,
                                       f_prefix = prefix,
                                       f_path_attributes = attributes path\<rparr>\<rparr>;
                             st = (if get_reduced_ixp_indexes ev path \<noteq> []
                                   then st\<lparr>ixp_in_path := ixp_in_path st + 1\<rparr> else st);
                             st = st\<lparr>scopes := insert dst_asn (scopes st)\<rparr>
                         in Inr (Some ret,
                                 rs\<lparr>run_stats := st, probe_ip_map := pim,
                                    seen_peer_prefixes :=
                                      insert (from', prefix) (seen_peer_prefixes rs)\<rparr>)))))"

definition count_reject :: "run_state \<Rightarrow> stats \<Rightarrow> exn + (output_record option \<times> run_state)" where
  "count_reject rs st = Inr (None, rs\<lparr>run_stats := st\<rparr>)"

definition process_message ::
  "env \<Rightarrow> args \<Rightarrow> msg \<Rightarrow> run_state \<Rightarrow> exn + (output_record option \<times> run_state)" where
  "process_message ev a m rs =
    (case filtered_out a m of
       Inl e \<Rightarrow> Inl e
     | Inr excluded \<Rightarrow>
        if excluded then Inr (None, rs)
        else
          let st = (run_stats rs)\<lparr>total := total (run_stats rs) + 1\<rparr> in
          (case get_dst_addr ev m of
             None \<Rightarrow> count_reject rs (st\<lparr>no_dst_addr := no_dst_addr st + 1\<rparr>)
           | Some dst_addr \<Rightarrow>
              if dst_addr = [] then count_reject rs (st\<lparr>no_dst_addr := no_dst_addr st + 1\<rparr>)
              else
                let dst_asn = ip2asn (env_lookup ev) dst_addr in
                if dst_asn = ''0'' then count_reject rs (st\<lparr>no_dst_asn := no_dst_asn st + 1\<rparr>)
                else if target_asn a \<noteq> None \<and> Some dst_asn \<noteq> target_asn a then count_reject rs st
                else
                  let prefix = ip2prefix (env_lookup ev) dst_addr in
                  if prefix = [] then count_reject rs (st\<lparr>no_prefix := no_prefix st + 1\<rparr>)
                  else
                    (case msg_from m of
                       None \<Rightarrow> count_reject rs (st\<lparr>no_from := no_from st + 1\<rparr>)
                     | Some from' \<Rightarrow>
                        if from' = [] then count_reject rs (st\<lparr>no_from := no_from st + 1\<rparr>)
                        else
                          let peer_asn = ip2asn (env_lookup ev) from' in
                          if peer_asn = ''0''
                          then count_reject rs (st\<lparr>no_peer_asn := no_peer_asn st + 1\<rparr>)
                          else if (from', prefix) \<in> seen_peer_prefixes rs \<and> \<not> include_duplicates a
                          then count_reject rs (st\<lparr>duplicate := duplicate st + 1\<rparr>)
                          else process_message_path ev a m from' prefix peer_asn dst_asn
                                 (rs\<lparr>run_stats := st\<rparr>))))"

text \<open>
  The reading loop of \<^verbatim>\<open>main\<close> (lines 450 to 465): every message is processed in order,
  and a non-empty result is written; the written records are collected.
\<close>

fun run_messages ::
  "env \<Rightarrow> args \<Rightarrow> msg list \<Rightarrow> run_state \<Rightarrow> exn + (output_record list \<times> run_state)" where
  "run_messages ev a [] rs = Inr ([], rs)"
| "run_messages ev a (m # ms) rs =
     (case process_message ev a m rs of
        Inl e \<Rightarrow> Inl e
      | Inr (data, rs') \<Rightarrow>
         (case run_messages ev a ms rs' of
            Inl e \<Rightarrow> Inl e
          | Inr (written, rs'') \<Rightarrow>
             Inr ((case data of None \<Rightarrow> [] | Some d \<Rightarrow> [d]) @ written, rs'')))"

section \<open>print\_stats\<close>

text \<open>
  \<^verbatim>\<open>100 / n\<close> is Python's true division: it raises \<^verbatim>\<open>ZeroDivisionError\<close> when
  \<open>n\<close> is 0. The quotient is kept as an exact rational where Python has a float; the
  formatting of the printed numbers is not modelled, a printed line is its label, its count and
  its percentage columns.
\<close>

definition truediv :: "int \<Rightarrow> int \<Rightarrow> exn + rat" where
  "truediv a b = (if b = 0 then Inl ZeroDivisionError else Inr (of_int a / of_int b))"

datatype printed = NoValues | Table "(string \<times> int \<times> rat list) list"

definition stats_table :: "stats \<Rightarrow> rat \<Rightarrow> rat \<Rightarrow> rat \<Rightarrow> (string \<times> int \<times> rat list) list" where
  "stats_table st p_total p_accepted p_used =
    [(''Total'', total st, [100]),
     (''No dst_addr'', no_dst_addr st, [p_total * of_int (no_dst_addr st)]),
     (''No dst_asn'', no_dst_asn st, [p_total * of_int (no_dst_asn st)]),
     (''No prefix'', no_prefix st, [p_total * of_int (no_prefix st)]),
     (''No from'', no_from st, [p_total * of_int (no_from st)]),
     (''No peer_asn'', no_peer_asn st, [p_total * of_int (no_peer_asn st)]),
     (''Duplicates'', duplicate st, [p_total * of_int (duplicate st)]),
     (''Changed IP'', changed_ip st, [p_total * of_int (changed_ip st)]),
     (''Accepted'', accepted st, [p_total * of_int (accepted st), 100]),
     (''DNF'', dnf st, [p_total * of_int (dnf st), p_accepted * of_int (dnf st)]),
     (''Empty path'', empty_path st,
        [p_total * of_int (empty_path st), p_accepted * of_int (empty_path st)]),
     (''Start AS in path'', start_as_in_path st,
        [p_total * of_int (start_as_in_path st), p_accepted * of_int (start_as_in_path st)]),
     (''End AS in path'', end_as_in_path st,
        [p_total * of_int (end_as_in_path st), p_accepted * of_int (end_as_in_path st)]),
     (''Single AS'', single_as st,
        [p_total * of_int (single_as st), p_accepted * of_int (single_as st)]),
     (''Used'', used st, [p_total * of_int (used st), p_accepted * of_int (used st), 100]),
     (''Too many hops'', too_many_hops st,
        [p_total * of_int (too_many_hops st), p_accepted * of_int (too_many_hops st),
         p_used * of_int (too_many_hops st)]),
     (''With errors'', errors st,
        [p_total * of_int (errors st), p_accepted * of_int (errors st),
         p_used * of_int (errors st)]),
     (''Start AS missing'', start_as_missing st,
        [p_total * of_int (start_as_missing st), p_accepted * of_int (start_as_missing st),
         p_used * of_int (start_as_missing st)]),
     (''End AS Missing'', end_as_missing st,
        [p_total * of_int (end_as_missing st), p_accepted * of_int (end_as_missing st),
         p_used * of_int (end_as_missing st)]),
     (''IXP in path'', ixp_in_path st,
        [p_total * of_int (ixp_in_path st), p_accepted * of_int (ixp_in_path st),
         p_used * of_int (ixp_in_path st)]),
     (''AS set in path'', as_set st,
        [p_total * of_int (as_set st), p_accepted * of_int (as_set st),
         p_used * of_int (as_set st)])]"

definition print_stats :: "stats \<Rightarrow> exn + printed" where
  "print_stats st =
    (if total st = 0 then Inr NoValues
     else case truediv 100 (total st) of
       Inl e \<Rightarrow> Inl e
     | Inr p_total \<Rightarrow>
        (case truediv 100 (accepted st) of
           Inl e \<Rightarrow> Inl e
         | Inr p_accepted \<Rightarrow>
            (case truediv 100 (used st) of
               Inl e \<Rightarrow> Inl e
             | Inr p_used \<Rightarrow> Inr (Table (stats_table st p_total p_accepted p_used)))))"

section \<open>Notions used in the statements\<close>

text \<open>
  The calls that a hop adds to a path: the path after the hop is the path before it followed by
  these.
\<close>

fun is_append :: "path_call \<Rightarrow> bool" where
  "is_append (Append as_str ip ixp) = True"
| "is_append (AppendSet as_tuple ip_tuple contains_ixp) = True"
| "is_append (SetStartEndAsn start_asn end_asn) = False"
| "is_append (MarkHopError error_str) = False"
| "is_append FlagTooManyHops = False"

text \<open>
  In the words of the spec, the slots that one member address of an ambiguous hop contributes to
  the AS-token tuple and to the IP-token tuple: four aligned slots for an IXP member (the address
  is repeated three extra times on the IP side), one slot otherwise.
\<close>

definition spec_as_slots :: "lookup \<Rightarrow> string \<Rightarrow> string list" where
  "spec_as_slots lk address =
     (if ip2ixpid lk address \<noteq> 0
      then [''ix|'' @ str_int (ip2ixpid lk address),
            ''ix|'' @ str_int (ip2ixpid lk address) @ '';as|'' @ ip2asn lk address,
            ''ip|'' @ address,
            ''as|'' @ ip2asn lk address]
      else [''as|'' @ ip2asn lk address])"

definition spec_ip_slots :: "lookup \<Rightarrow> string \<Rightarrow> string list" where
  "spec_ip_slots lk address =
     (if ip2ixpid lk address \<noteq> 0 then address # replicate 3 address else [address])"

text \<open>
  In the words of the spec, the entries appended for a hop classified as a single address: the
  bare IXP marker, the IXP-attributed AS and the raw IP, all marked as IXP-derived, when the
  address resolves to an IXP, and then the plain AS entry.
\<close>

definition spec_single_calls :: "lookup \<Rightarrow> string \<Rightarrow> path_call list" where
  "spec_single_calls lk address =
     (if ip2ixpid lk address \<noteq> 0
      then [Append (''ix|'' @ str_int (ip2ixpid lk address)) address True,
            Append (''ix|'' @ str_int (ip2ixpid lk address) @ '';as|'' @ ip2asn lk address)
              address True,
            Append (''ip|'' @ address) address True]
      else []) @
     [Append (''as|'' @ ip2asn lk address) address False]"

text \<open>
  In the words of the spec, the usable replies of a hop (not a failure marker, not suppressed,
  not a timeout, with a source address), the inline error codes they carry, converted to strings,
  and the annotation: the distinct codes, sorted and joined by one space.
\<close>

definition usable_reply :: "ASPath \<Rightarrow> reply \<Rightarrow> bool" where
  "usable_reply path r =
     (reply_error r = None \<and> \<not> skip_reply path r \<and> reply_x r = None \<and> reply_from r \<noteq> None)"

definition spec_error_codes :: "ASPath \<Rightarrow> reply list \<Rightarrow> string list" where
  "spec_error_codes path rs =
     map str_errval (List.map_filter reply_err (filter (usable_reply path) rs))"

definition spec_error_annotation :: "ASPath \<Rightarrow> reply list \<Rightarrow> string" where
  "spec_error_annotation path rs = join '' '' (sort (remdups (spec_error_codes path rs)))"

text \<open>
  The fields that \<^verbatim>\<open>process_message\<close> reads with a subscript: \<^verbatim>\<open>'prb_id'\<close> and
  \<^verbatim>\<open>'result'\<close>, \<^verbatim>\<open>'msm_id'\<close> when a measurement filter is given, and in every hop
  \<^verbatim>\<open>'result'\<close> unless the hop has \<^verbatim>\<open>'error'\<close>.
\<close>

definition hop_has_fields :: "hop \<Rightarrow> bool" where
  "hop_has_fields h = (hop_error h \<noteq> None \<or> hop_result h \<noteq> None)"

definition has_required_fields :: "args \<Rightarrow> msg \<Rightarrow> bool" where
  "has_required_fields a m =
     ((msm_ids a \<noteq> None \<longrightarrow> msg_msm_id m \<noteq> None) \<and>
      msg_prb_id m \<noteq> None \<and>
      (case msg_result m of None \<Rightarrow> False | Some hs \<Rightarrow> list_all hop_has_fields hs))"

text \<open>
  Steps 1 to 6 of the message state machine: the message is not filtered out and its destination
  address, destination AS, prefix, source address and source AS resolve. The deduplication key
  of a message is its source address with the prefix of its destination.
\<close>

definition passes_checks :: "env \<Rightarrow> args \<Rightarrow> msg \<Rightarrow> bool" where
  "passes_checks ev a m =
     (filtered_out a m = Inr False \<and>
      (case get_dst_addr ev m of
         None \<Rightarrow> False
       | Some dst_addr \<Rightarrow>
           dst_addr \<noteq> [] \<and>
           ip2asn (env_lookup ev) dst_addr \<noteq> ''0'' \<and>
           (target_asn a = None \<or> target_asn a = Some (ip2asn (env_lookup ev) dst_addr)) \<and>
           ip2prefix (env_lookup ev) dst_addr \<noteq> []) \<and>
      (case msg_from m of
         None \<Rightarrow> False
       | Some from' \<Rightarrow> from' \<noteq> [] \<and> ip2asn (env_lookup ev) from' \<noteq> ''0''))"

definition dedup_key :: "env \<Rightarrow> msg \<Rightarrow> (string \<times> string) option" where
  "dedup_key ev m =
     (case msg_from m of
        None \<Rightarrow> None
      | Some from' \<Rightarrow>
         (case get_dst_addr ev m of
            None \<Rightarrow> None
          | Some dst_addr \<Rightarrow> Some (from', ip2prefix (env_lookup ev) dst_addr)))"

definition is_duplicate :: "env \<Rightarrow> args \<Rightarrow> msg \<Rightarrow> run_state \<Rightarrow> bool" where
  "is_duplicate ev a m rs =
     (case dedup_key ev m of
        None \<Rightarrow> False
      | Some k \<Rightarrow> k \<in> seen_peer_prefixes rs \<and> \<not> include_duplicates a)"

text \<open>
  Modelled from the spec: the path reduction updates only the counters of its own anomalies
  (\<^verbatim>\<open>empty_path\<close>, \<^verbatim>\<open>single_as\<close>, \<^verbatim>\<open>start_as_in_path\<close>, \<^verbatim>\<open>end_as_in_path\<close>,
  \<^verbatim>\<open>start_as_missing\<close>, \<^verbatim>\<open>end_as_missing\<close>, \<^verbatim>\<open>as_set\<close>); the reduction itself is
  not among the sources. Of the counters it leaves alone, the statements need these two.
\<close>

definition reducer_frame :: "env \<Rightarrow> bool" where
  "reducer_frame ev =
     (\<forall>path st. accepted (snd (get_reduced_path ev path st)) = accepted st \<and>
                used (snd (get_reduced_path ev path st)) = used st)"

subsection \<open>Example inputs\<close>

text \<open>
  A lookup that knows three addresses, one of them at the exchange point 7, and an environment
  whose reduction keeps the raw path as it is.
\<close>

definition ex_lookup :: lookup where
  "ex_lookup =
     \<lparr>ip2asn = (\<lambda>a. if a = ''10.0.0.1'' then ''64500''
                    else if a = ''10.0.0.2'' then ''64501''
                    else if a = ''10.9.9.9'' then ''64502'' else ''0''),
      ip2prefix = (\<lambda>a. if a = ''10.9.9.9'' then ''10.9.0.0/16'' else []),
      ip2ixpid = (\<lambda>a. if a = ''10.0.0.2'' then 7 else 0)\<rparr>"

definition ex_env :: env where
  "ex_env =
     \<lparr>env_lookup = ex_lookup,
      get_dst_addr = (\<lambda>m. Some ''10.9.9.9''),
      get_reduced_path =
        (\<lambda>path st. ((fst (get_raw_path path), snd (get_raw_path path),
                      int (length (raw_positions path))), st)),
      get_reduced_ixp_indexes = get_raw_ixp_indexes\<rparr>"

definition ex_args :: args where
  "ex_args = \<lparr>unified_timestamp = 1000, msm_ids = None, probe_ids = None, target_asn = None,
              include_duplicates = False\<rparr>"

definition ex_reply :: "string \<Rightarrow> reply" where
  "ex_reply a = \<lparr>reply_error = None, reply_err = None, reply_from = Some a, reply_x = None\<rparr>"

definition ex_timeout :: reply where
  "ex_timeout = \<lparr>reply_error = None, reply_err = None, reply_from = None, reply_x = Some ''*''\<rparr>"

definition ex_hop :: "int \<Rightarrow> reply list \<Rightarrow> hop" where
  "ex_hop ttl rs = \<lparr>hop_error = None, hop_result = Some rs, hop_hop = Some ttl\<rparr>"

definition ex_msg :: "hop list \<Rightarrow> msg" where
  "ex_msg hs = \<lparr>msg_msm_id = Some 5001, msg_prb_id = Some 42, msg_from = Some ''10.0.0.1'',
                msg_result = Some hs\<rparr>"

section \<open>Properties of print\_stats\<close>

text \<open>
  Claim C10. \<^verbatim>\<open>print_stats\<close> raises \<^verbatim>\<open>ZeroDivisionError\<close> whenever the total counter is
  positive (indeed whenever it is not zero) while the accepted counter or the used counter is zero;
  only a zero total is guarded, and then the function prints the "No values." line and returns.
  In every other case it prints the table, so these are the only inputs on which it raises.
\<close>

theorem print_stats_zero_division:
  "(total st = 0 \<longrightarrow> print_stats st = Inr NoValues) \<and>
   (0 < total st \<and> (accepted st = 0 \<or> used st = 0) \<longrightarrow> print_stats st = Inl ZeroDivisionError) \<and>
   (print_stats st = Inl ZeroDivisionError \<longleftrightarrow>
      total st \<noteq> 0 \<and> (accepted st = 0 \<or> used st = 0))"
  by (simp add: print_stats_def truediv_def)

theorem print_stats_zero_division_witness:
  "0 < total (stats_init\<lparr>total := 3\<rparr>) \<and> accepted (stats_init\<lparr>total := 3\<rparr>) = 0 \<and>
   print_stats (stats_init\<lparr>total := 3\<rparr>) = Inl ZeroDivisionError \<and>
   total stats_init = 0 \<and> print_stats stats_init = Inr NoValues"
  using print_stats_zero_division [of "stats_init\<lparr>total := 3\<rparr>"]
    print_stats_zero_division [of stats_init]
  by (simp add: stats_init_def)

end
